theory Spec2Isabelle
  imports Complex_Main "HOL-Library.Product_Lexorder"
begin

section \<open>The image browser: text search and neighbour browsing over a vector store\<close>

text \<open>
  A shallow embedding of \<^verbatim>\<open>src/processor/app.py\<close>: the two request handlers
  \<^verbatim>\<open>index\<close> (text search) and \<^verbatim>\<open>neighbors\<close> (neighbours of a stored image).
  The handlers talk to two collaborators, the CLIP text encoder and a PostgreSQL table
  \<^verbatim>\<open>image_embeddings(file_name, embedding)\<close> reached through psycopg2. Both are
  part of an explicit world state that every call threads through; a Python exception is
  the \<open>Inl\<close> branch of the result.
\<close>

subsection \<open>Values\<close>

type_synonym embedding = "real list"

text \<open>Exceptions the handlers can meet. All of them derive from Python's \<^verbatim>\<open>Exception\<close>.\<close>

datatype py_error =
    OperationalError  \<comment> \<open>psycopg2: the store is unreachable or the call failed\<close>
  | DataError         \<comment> \<open>psycopg2: the statement was rejected (vector dimensions)\<close>
  | ProgrammingError  \<comment> \<open>psycopg2: fetch on a cursor with no result set\<close>
  | InterfaceError    \<comment> \<open>psycopg2: use of a closed connection\<close>
  | TypeError         \<comment> \<open>Python: \<^verbatim>\<open>list(x)\<close> on a value that is not iterable\<close>
  | EncoderError      \<comment> \<open>any exception raised inside \<^verbatim>\<open>clip.text_encoder\<close>\<close>

text \<open>
  What \<^verbatim>\<open>clip.text_encoder\<close> can hand back: an array object with a
  \<^verbatim>\<open>tolist\<close> method, some other iterable of numbers, or a value that is neither
  (\<^verbatim>\<open>None\<close>).
\<close>

datatype enc_value = Array embedding | Sequence embedding | NoVector

text \<open>
  The SQL statements of the source, with their parameters. \<open>SelectNearest v None\<close> is
  the statement of \<^verbatim>\<open>index\<close>; \<open>SelectNearest v (Some x)\<close> is the statement of
  \<^verbatim>\<open>neighbors\<close>, which has the extra \<^verbatim>\<open>WHERE file_name != x\<close>.
\<close>

datatype sql_stmt =
    SelectEmbedding string
  | SelectNearest embedding "string option"

datatype store_op =
    Connect | Cursor | Execute sql_stmt | FetchOne | FetchAll | CursorClose | ConnClose

text \<open>
  The world: the table in its row order (an embedding cell may be SQL \<^verbatim>\<open>NULL\<close>,
  which psycopg2 returns as \<^verbatim>\<open>None\<close>), the encoder, the store calls that will fail
  (by their position in the sequence of all store calls), the order in which the store
  returns rows that a statement's \<^verbatim>\<open>ORDER BY\<close> leaves tied (for a statement, a rank
  for every row position; nothing constrains it), the connections that are open, and logs
  of the calls made so far. A store call is logged with its outcome:
  \<open>None\<close> when it returned, \<open>Some e\<close> when it raised \<open>e\<close>.
\<close>

record world =
  table :: "(string \<times> embedding option) list"
  encoder :: "string \<Rightarrow> py_error + enc_value"
  faulty :: "nat set"
  tie_order :: "sql_stmt \<Rightarrow> nat \<Rightarrow> nat"
  open_conns :: "nat set"
  next_conn :: nat
  store_log :: "(store_op \<times> py_error option) list"
  encoder_log :: "string list"

record 'r cursor =
  cur_conn :: nat
  cur_rows :: "'r list option"

text \<open>What the handler passes to the template: the image names and the echoed query.\<close>

record response =
  images :: "string list"
  query :: "string option"

subsection \<open>Computations with state and exceptions\<close>

type_synonym 'a io = "world \<Rightarrow> (py_error + 'a) \<times> world"

definition return_io :: "'a \<Rightarrow> 'a io" where
  "return_io x w = (Inr x, w)"

definition raise_io :: "py_error \<Rightarrow> 'a io" where
  "raise_io e w = (Inl e, w)"

definition bind_io :: "'a io \<Rightarrow> ('a \<Rightarrow> 'b io) \<Rightarrow> 'b io" where
  "bind_io m f w = (case m w of (Inl e, w') \<Rightarrow> (Inl e, w') | (Inr x, w') \<Rightarrow> f x w')"

text \<open>
  \<^verbatim>\<open>try: m  except Exception as e: h\<close>. The handler runs in the state the body left
  behind: nothing the body did is undone.
\<close>

definition try_except :: "'a io \<Rightarrow> (py_error \<Rightarrow> 'a io) \<Rightarrow> 'a io" where
  "try_except m h w = (case m w of (Inl e, w') \<Rightarrow> h e w' | (Inr x, w') \<Rightarrow> (Inr x, w'))"

subsection \<open>The vector store\<close>

text \<open>
  The operator \<^verbatim>\<open><#>\<close> of pgvector is the negative inner product. It is \<^verbatim>\<open>NULL\<close>
  on a \<^verbatim>\<open>NULL\<close> operand.
\<close>

definition neg_inner_product :: "embedding \<Rightarrow> embedding \<Rightarrow> real" where
  "neg_inner_product a b = - sum_list (map2 (*) a b)"

definition distance :: "embedding \<Rightarrow> embedding option \<Rightarrow> real option" where
  "distance v cell = map_option (\<lambda>e. neg_inner_product e v) cell"

text \<open>
  \<^verbatim>\<open>ORDER BY distance ASC\<close> puts \<^verbatim>\<open>NULL\<close> distances last. The sort key of a
  distance is a pair, compared lexicographically.
\<close>

definition nulls_last :: "real option \<Rightarrow> bool \<times> real" where
  "nulls_last d = (case d of None \<Rightarrow> (True, 0) | Some x \<Rightarrow> (False, x))"

text \<open>The rows the \<^verbatim>\<open>WHERE\<close> clause of the nearest-neighbour statement keeps.\<close>

definition eligible :: "string option \<Rightarrow> (string \<times> embedding option) list
    \<Rightarrow> (string \<times> embedding option) list" where
  "eligible excl tbl = filter (\<lambda>row. case excl of None \<Rightarrow> True | Some x \<Rightarrow> fst row \<noteq> x) tbl"

text \<open>
  \<^verbatim>\<open>SELECT file_name, embedding <#> v AS distance FROM image_embeddings
  [WHERE file_name != x] ORDER BY distance ASC LIMIT 30\<close>. The statement is rejected when
  \<open>v\<close> has no component, or when a row it evaluates holds a vector of another dimension.
  The statement names the distance as its only sort key, so the order of rows of equal
  distance is the store's: \<open>tie\<close> ranks the row positions, and rows of equal distance
  come in the order of their ranks. The rows are numbered by their position in the table,
  filtered, sorted, cut to 30 and projected to the two columns of the statement.
\<close>

definition select_nearest :: "(string \<times> embedding option) list \<Rightarrow> (nat \<Rightarrow> nat) \<Rightarrow> embedding
    \<Rightarrow> string option \<Rightarrow> py_error + (string \<times> real option) list" where
  "select_nearest tbl tie v excl =
     (let rows = eligible excl tbl in
      if v = [] \<or> list_ex (\<lambda>row. case snd row of None \<Rightarrow> False | Some e \<Rightarrow> length e \<noteq> length v) rows
      then Inl DataError
      else Inr (map (\<lambda>(i, row). (fst row, distance v (snd row)))
             (take 30 (sort_key (\<lambda>(i, row). (nulls_last (distance v (snd row)), tie i))
                (filter (\<lambda>(i, row). case excl of None \<Rightarrow> True | Some x \<Rightarrow> fst row \<noteq> x)
                   (enumerate 0 tbl))))))"

text \<open>
  \<^verbatim>\<open>SELECT embedding FROM image_embeddings WHERE file_name = x LIMIT 1\<close>: one-column
  rows, at most one of them.
\<close>

definition select_embedding :: "(string \<times> embedding option) list \<Rightarrow> string
    \<Rightarrow> embedding option list" where
  "select_embedding tbl x = take 1 (map snd (filter (\<lambda>row. fst row = x) tbl))"

text \<open>
  Every psycopg2 call goes through \<open>store_call\<close>: the call fails with
  \<open>OperationalError\<close> when its position in the sequence of store calls is in
  \<open>faulty\<close>, and otherwise does its work, which may raise too. The call and its
  outcome are logged.
\<close>

definition store_call :: "store_op \<Rightarrow> 'a io \<Rightarrow> 'a io" where
  "store_call op body w =
     (if length (store_log w) \<in> faulty w
      then (Inl OperationalError, w\<lparr>store_log := store_log w @ [(op, Some OperationalError)]\<rparr>)
      else (case body w of
              (Inl e, w') \<Rightarrow> (Inl e, w'\<lparr>store_log := store_log w' @ [(op, Some e)]\<rparr>)
            | (Inr x, w') \<Rightarrow> (Inr x, w'\<lparr>store_log := store_log w' @ [(op, None)]\<rparr>)))"

definition connect :: "nat io" where
  "connect = store_call Connect
     (\<lambda>w. (Inr (next_conn w),
            w\<lparr>open_conns := insert (next_conn w) (open_conns w), next_conn := Suc (next_conn w)\<rparr>))"

definition new_cursor :: "nat \<Rightarrow> 'r cursor io" where
  "new_cursor conn = store_call Cursor
     (\<lambda>w. if conn \<in> open_conns w then (Inr \<lparr>cur_conn = conn, cur_rows = None\<rparr>, w)
           else (Inl InterfaceError, w))"

definition execute_embedding :: "'q cursor \<Rightarrow> string \<Rightarrow> (embedding option) cursor io" where
  "execute_embedding cur x = store_call (Execute (SelectEmbedding x))
     (\<lambda>w. (Inr \<lparr>cur_conn = cur_conn cur, cur_rows = Some (select_embedding (table w) x)\<rparr>, w))"

definition execute_nearest :: "'q cursor \<Rightarrow> embedding \<Rightarrow> string option
    \<Rightarrow> (string \<times> real option) cursor io" where
  "execute_nearest cur v excl = store_call (Execute (SelectNearest v excl))
     (\<lambda>w. case select_nearest (table w) (tie_order w (SelectNearest v excl)) v excl of
             Inl e \<Rightarrow> (Inl e, w)
           | Inr rows \<Rightarrow> (Inr \<lparr>cur_conn = cur_conn cur, cur_rows = Some rows\<rparr>, w))"

definition fetchone :: "'r cursor \<Rightarrow> 'r option io" where
  "fetchone cur = store_call FetchOne
     (\<lambda>w. case cur_rows cur of
             None \<Rightarrow> (Inl ProgrammingError, w)
           | Some [] \<Rightarrow> (Inr None, w)
           | Some (r # rs) \<Rightarrow> (Inr (Some r), w))"

definition fetchall :: "'r cursor \<Rightarrow> 'r list io" where
  "fetchall cur = store_call FetchAll
     (\<lambda>w. case cur_rows cur of
             None \<Rightarrow> (Inl ProgrammingError, w)
           | Some rows \<Rightarrow> (Inr rows, w))"

definition cursor_close :: "'r cursor \<Rightarrow> unit io" where
  "cursor_close cur = store_call CursorClose (\<lambda>w. (Inr (), w))"

definition conn_close :: "nat \<Rightarrow> unit io" where
  "conn_close conn = store_call ConnClose
     (\<lambda>w. (Inr (), w\<lparr>open_conns := open_conns w - {conn}\<rparr>))"

subsection \<open>The encoder\<close>

definition text_encoder :: "string \<Rightarrow> enc_value io" where
  "text_encoder q w = (encoder w q, w\<lparr>encoder_log := encoder_log w @ [q]\<rparr>)"

text \<open>
  \<^verbatim>\<open>text_embedding.tolist() if hasattr(text_embedding, 'tolist') else list(text_embedding)\<close>
\<close>

definition to_list :: "enc_value \<Rightarrow> embedding io" where
  "to_list x = (case x of Array v \<Rightarrow> return_io v
                        | Sequence v \<Rightarrow> return_io v
                        | NoVector \<Rightarrow> raise_io TypeError)"

subsection \<open>Python strings\<close>

text \<open>
  A character stands for the code point of its number (below 256). \<^verbatim>\<open>str.strip()\<close>
  removes the leading and the trailing white space, which in this range is
  \<^verbatim>\<open>\t \n \v \f \r\<close>, the separators 28 to 31, the space, and the code points 133
  and 160.
\<close>

definition is_space :: "char \<Rightarrow> bool" where
  "is_space c = (let n = (of_char c :: nat) in
     (9 \<le> n \<and> n \<le> 13) \<or> (28 \<le> n \<and> n \<le> 32) \<or> n = 133 \<or> n = 160)"

definition strip :: "string \<Rightarrow> string" where
  "strip s = rev (dropWhile is_space (rev (dropWhile is_space s)))"

text \<open>Python's truth value of the fetched embedding: \<^verbatim>\<open>None\<close> and the empty value are false.\<close>

definition truthy :: "embedding option \<Rightarrow> bool" where
  "truthy cell = (case cell of None \<Rightarrow> False | Some v \<Rightarrow> v \<noteq> [])"

subsection \<open>The handlers\<close>

text \<open>
  \<^verbatim>\<open>index\<close>, the handler of \<^verbatim>\<open>GET /\<close>. Its argument is the request parameter
  \<^verbatim>\<open>q\<close>, \<open>None\<close> when the request has none.
\<close>

definition index :: "string option \<Rightarrow> response io" where
  "index q =
     (let query = strip (case q of None \<Rightarrow> [] | Some s \<Rightarrow> s) in
      if query \<noteq> [] then
        bind_io (text_encoder query) (\<lambda>text_embedding.
        bind_io (to_list text_embedding) (\<lambda>embedding_list.
        bind_io
          (try_except
             (bind_io connect (\<lambda>conn.
              bind_io (new_cursor conn) (\<lambda>cur :: unit cursor.
              bind_io (execute_nearest cur embedding_list None) (\<lambda>cur.
              bind_io (fetchall cur) (\<lambda>results.
              bind_io (return_io (map fst results)) (\<lambda>images.
              bind_io (cursor_close cur) (\<lambda>_.
              bind_io (conn_close conn) (\<lambda>_.
              return_io images))))))))
             (\<lambda>e. return_io []))
          (\<lambda>images. return_io \<lparr>images = images, query = Some query\<rparr>)))
      else return_io \<lparr>images = [], query = Some query\<rparr>)"

text \<open>
  \<^verbatim>\<open>neighbors\<close>, the handler of \<^verbatim>\<open>GET /neighbors/<file_name>\<close>: first the stored
  embedding of the image, then its nearest rows, the image itself excluded.
\<close>

definition neighbors :: "string \<Rightarrow> response io" where
  "neighbors file_name =
     bind_io
       (try_except
          (bind_io connect (\<lambda>conn.
           bind_io (new_cursor conn) (\<lambda>cur :: unit cursor.
           bind_io (execute_embedding cur file_name) (\<lambda>cur.
           bind_io (fetchone cur) (\<lambda>row.
           bind_io (return_io (case row of None \<Rightarrow> None | Some cell \<Rightarrow> cell)) (\<lambda>embedding.
           bind_io (cursor_close cur) (\<lambda>_.
           bind_io (conn_close conn) (\<lambda>_.
           return_io embedding))))))))
          (\<lambda>e. return_io None))
       (\<lambda>embedding.
     bind_io
       (if truthy embedding then
          try_except
            (bind_io connect (\<lambda>conn.
             bind_io (new_cursor conn) (\<lambda>cur :: unit cursor.
             bind_io (execute_nearest cur (case embedding of None \<Rightarrow> [] | Some v \<Rightarrow> v) (Some file_name)) (\<lambda>cur.
             bind_io (fetchall cur) (\<lambda>results.
             bind_io (return_io (map fst results)) (\<lambda>images.
             bind_io (cursor_close cur) (\<lambda>_.
             bind_io (conn_close conn) (\<lambda>_.
             return_io images))))))))
            (\<lambda>e. return_io [])
        else return_io [])
       (\<lambda>images. return_io \<lparr>images = images, query = None\<rparr>))"

text \<open>The two kinds of query, and the routing of a query to its handler.\<close>

datatype search_query = Text string | Exemplar string

definition search :: "search_query \<Rightarrow> response io" where
  "search q = (case q of Text t \<Rightarrow> index (Some t) | Exemplar x \<Rightarrow> neighbors x)"

subsection \<open>Notions the properties are stated with\<close>

text \<open>
  The body of the \<^verbatim>\<open>try\<close> statement around the nearest-neighbour statement, which
  \<^verbatim>\<open>index\<close> and \<^verbatim>\<open>neighbors\<close> share word for word but for the statement's
  \<^verbatim>\<open>WHERE\<close> clause, and the body of the \<^verbatim>\<open>try\<close> statement of the lookup.
\<close>

definition nearest_body :: "embedding \<Rightarrow> string option \<Rightarrow> string list io" where
  "nearest_body v excl =
     bind_io connect (\<lambda>conn.
     bind_io (new_cursor conn) (\<lambda>cur :: unit cursor.
     bind_io (execute_nearest cur v excl) (\<lambda>cur.
     bind_io (fetchall cur) (\<lambda>results.
     bind_io (return_io (map fst results)) (\<lambda>images.
     bind_io (cursor_close cur) (\<lambda>_.
     bind_io (conn_close conn) (\<lambda>_.
     return_io images)))))))"

definition lookup_body :: "string \<Rightarrow> embedding option io" where
  "lookup_body file_name =
     bind_io connect (\<lambda>conn.
     bind_io (new_cursor conn) (\<lambda>cur :: unit cursor.
     bind_io (execute_embedding cur file_name) (\<lambda>cur.
     bind_io (fetchone cur) (\<lambda>row.
     bind_io (return_io (case row of None \<Rightarrow> None | Some cell \<Rightarrow> cell)) (\<lambda>embedding.
     bind_io (cursor_close cur) (\<lambda>_.
     bind_io (conn_close conn) (\<lambda>_.
     return_io embedding)))))))"

text \<open>The \<open>i\<close>-th store call from now on will fail.\<close>

definition fault_at :: "world \<Rightarrow> nat \<Rightarrow> bool" where
  "fault_at w i = (length (store_log w) + i \<in> faulty w)"

text \<open>The store calls logged between two states, and whether one of them raised.\<close>

definition new_entries :: "world \<Rightarrow> world \<Rightarrow> (store_op \<times> py_error option) list" where
  "new_entries w w' = drop (length (store_log w)) (store_log w')"

definition raised_since :: "world \<Rightarrow> world \<Rightarrow> bool" where
  "raised_since w w' = (\<exists>entry \<in> set (new_entries w w'). snd entry \<noteq> None)"

text \<open>
  What the text path gets out of the encoder: \<^verbatim>\<open>clip.text_encoder\<close> followed by the
  conversion to a list.
\<close>

definition encoded :: "world \<Rightarrow> string \<Rightarrow> py_error + embedding" where
  "encoded w s = (case encoder w s of
       Inl e \<Rightarrow> Inl e
     | Inr (Array v) \<Rightarrow> Inr v
     | Inr (Sequence v) \<Rightarrow> Inr v
     | Inr NoVector \<Rightarrow> Inl TypeError)"

text \<open>
  A small world for concrete runs: four images, one of them without an embedding, an
  encoder that maps every text to the vector \<open>(1, 1)\<close>, and a store that never fails
  and returns tied rows in table order.
\<close>

definition demo_world :: world where
  "demo_world =
     \<lparr>table = [(''a'', Some [1, 0]), (''b'', Some [0, 1]), (''c'', None), (''d'', Some [2, 2])],
      encoder = (\<lambda>s. Inr (Array [1, 1])), faulty = {}, tie_order = (\<lambda>s i. 0),
      open_conns = {}, next_conn = 0,
      store_log = [], encoder_log = []\<rparr>"

text \<open>The same world with a store whose third call (the first \<^verbatim>\<open>execute\<close>) fails.\<close>

definition outage_world :: world where
  "outage_world = demo_world\<lparr>faulty := {2}\<rparr>"

text \<open>The demo world with an encoder that raises on every text.\<close>

definition mute_world :: world where
  "mute_world = demo_world\<lparr>encoder := (\<lambda>s. Inl EncoderError)\<rparr>"








section \<open>Properties\<close>

subsection \<open>Running the store calls\<close>

lemmas io_defs = bind_io_def return_io_def raise_io_def try_except_def store_call_def connect_def new_cursor_def
  execute_nearest_def execute_embedding_def fetchall_def fetchone_def cursor_close_def conn_close_def

lemma no_fault6:
  assumes "\<forall>i<6. \<not> fault_at w i"
  shows "length (store_log w) \<notin> faulty w" "Suc (length (store_log w)) \<notin> faulty w"
    "Suc (Suc (length (store_log w))) \<notin> faulty w" "Suc (Suc (Suc (length (store_log w)))) \<notin> faulty w"
    "Suc (Suc (Suc (Suc (length (store_log w))))) \<notin> faulty w"
    "Suc (Suc (Suc (Suc (Suc (length (store_log w)))))) \<notin> faulty w"
    using assms[rule_format, of 0] assms[rule_format, of 1] assms[rule_format, of 2]
      assms[rule_format, of 3] assms[rule_format, of 4] assms[rule_format, of 5]
    by (simp_all add: fault_at_def eval_nat_numeral)

lemma nearest_body_ok:
  assumes "\<forall>i<6. \<not> fault_at w i" "select_nearest (table w) (tie_order w (SelectNearest v excl)) v excl = Inr rows"
  shows "nearest_body v excl w = (Inr (map fst rows),
     w\<lparr>open_conns := open_conns w - {next_conn w}, next_conn := Suc (next_conn w),
       store_log := store_log w @ [(Connect, None), (Cursor, None), (Execute (SelectNearest v excl), None),
          (FetchAll, None), (CursorClose, None), (ConnClose, None)]\<rparr>)"
    using no_fault6[OF assms(1)] assms(2) by (simp add: nearest_body_def io_defs)

lemma nearest_body_frame:
  assumes "nearest_body v excl w = (r, w')"
  shows "table w' = table w \<and> encoder w' = encoder w \<and> faulty w' = faulty w
    \<and> tie_order w' = tie_order w \<and> encoder_log w' = encoder_log w"
  using assms
  by (auto simp add: nearest_body_def io_defs split: if_splits sum.splits)


lemma nearest_body_Inr:
  assumes "nearest_body v excl w = (Inr names, w')"
  shows "\<exists>rows. names = map fst rows \<and> select_nearest (table w) (tie_order w (SelectNearest v excl)) v excl = Inr rows"
    and "\<not> raised_since w w'"
    and "open_conns w' = open_conns w - {next_conn w}"
    and "new_entries w w' = [(Connect, None), (Cursor, None), (Execute (SelectNearest v excl), None),
          (FetchAll, None), (CursorClose, None), (ConnClose, None)]"
  using assms
  by (auto simp add: nearest_body_def io_defs raised_since_def new_entries_def split: if_splits sum.splits)

lemma nearest_body_no_fault:
  assumes "nearest_body v excl w = (Inr names, w')" "i < 6"
  shows "\<not> fault_at w i"
proof -
  have "i = 0 \<or> i = 1 \<or> i = 2 \<or> i = 3 \<or> i = 4 \<or> i = 5" using assms(2) by arith
  moreover have "length (store_log w) \<notin> faulty w \<and> Suc (length (store_log w)) \<notin> faulty w \<and>
    Suc (Suc (length (store_log w))) \<notin> faulty w \<and> Suc (Suc (Suc (length (store_log w)))) \<notin> faulty w \<and>
    Suc (Suc (Suc (Suc (length (store_log w))))) \<notin> faulty w \<and>
    Suc (Suc (Suc (Suc (Suc (length (store_log w)))))) \<notin> faulty w"
    using assms(1)
    by (auto simp add: nearest_body_def io_defs split: if_splits sum.splits)
  ultimately show ?thesis by (auto simp add: fault_at_def eval_nat_numeral)
qed

lemma nearest_body_Inr_state:
  assumes "nearest_body v excl w = (Inr names, w')"
  shows "w' = w\<lparr>open_conns := open_conns w - {next_conn w}, next_conn := Suc (next_conn w),
       store_log := store_log w @ [(Connect, None), (Cursor, None), (Execute (SelectNearest v excl), None),
          (FetchAll, None), (CursorClose, None), (ConnClose, None)]\<rparr>"
  using assms
  by (auto simp add: nearest_body_def io_defs split: if_splits sum.splits)

lemma nearest_body_fault:
  assumes "i < 6" "fault_at w i"
  shows "\<exists>e w'. nearest_body v excl w = (Inl e, w')"
proof (cases "nearest_body v excl w")
  case (Pair r w')
  show ?thesis
  proof (cases r)
    case (Inl e)
    with Pair show ?thesis by blast
  next
    case (Inr names)
    with Pair nearest_body_no_fault[of v excl w names w' i] assms show ?thesis by simp
  qed
qed

lemma nearest_body_rejected:
  assumes "select_nearest (table w) (tie_order w (SelectNearest v excl)) v excl = Inl e"
  shows "\<exists>e' w'. nearest_body v excl w = (Inl e', w')"
proof (cases "nearest_body v excl w")
  case (Pair r w')
  show ?thesis
  proof (cases r)
    case (Inl e)
    with Pair show ?thesis by blast
  next
    case (Inr names)
    with Pair nearest_body_Inr(1)[of v excl w names w'] assms show ?thesis by simp
  qed
qed

lemma lookup_body_frame:
  assumes "lookup_body x w = (r, w')"
  shows "table w' = table w \<and> encoder w' = encoder w \<and> faulty w' = faulty w
    \<and> tie_order w' = tie_order w \<and> encoder_log w' = encoder_log w"
  using assms
  by (auto simp add: lookup_body_def io_defs split: if_splits sum.splits list.splits)


lemma lookup_body_Inr:
  assumes "lookup_body x w = (Inr cell, w')"
  shows "cell = (case select_embedding (table w) x of [] \<Rightarrow> None | c # cs \<Rightarrow> c)"
    and "w' = w\<lparr>open_conns := open_conns w - {next_conn w}, next_conn := Suc (next_conn w),
       store_log := store_log w @ [(Connect, None), (Cursor, None), (Execute (SelectEmbedding x), None),
          (FetchOne, None), (CursorClose, None), (ConnClose, None)]\<rparr>"
  using assms
  by (auto simp add: lookup_body_def io_defs split: if_splits sum.splits list.splits)

lemma lookup_body_log:
  assumes "lookup_body x w = (r, w')"
  shows "\<forall>entry \<in> set (new_entries w w'). \<forall>v excl. fst entry \<noteq> Execute (SelectNearest v excl)"
  using assms
  by (auto simp add: lookup_body_def io_defs new_entries_def split: if_splits sum.splits list.splits)

subsection \<open>Running the handlers\<close>

lemma index_unfold:
  "index q =
     (let query = strip (case q of None \<Rightarrow> [] | Some s \<Rightarrow> s) in
      if query \<noteq> [] then
        bind_io (text_encoder query) (\<lambda>text_embedding.
        bind_io (to_list text_embedding) (\<lambda>embedding_list.
        bind_io (try_except (nearest_body embedding_list None) (\<lambda>e. return_io []))
          (\<lambda>images. return_io \<lparr>images = images, query = Some query\<rparr>)))
      else return_io \<lparr>images = [], query = Some query\<rparr>)"
  unfolding index_def nearest_body_def ..

lemma neighbors_unfold:
  "neighbors file_name =
     bind_io (try_except (lookup_body file_name) (\<lambda>e. return_io None)) (\<lambda>embedding.
     bind_io
       (if truthy embedding then
          try_except (nearest_body (case embedding of None \<Rightarrow> [] | Some v \<Rightarrow> v) (Some file_name)) (\<lambda>e. return_io [])
        else return_io [])
       (\<lambda>images. return_io \<lparr>images = images, query = None\<rparr>))"
  unfolding neighbors_def lookup_body_def nearest_body_def ..

lemma index_text:
  assumes "strip t \<noteq> []"
  shows "index (Some t) w =
    (case encoded w (strip t) of
       Inl e \<Rightarrow> (Inl e, w\<lparr>encoder_log := encoder_log w @ [strip t]\<rparr>)
     | Inr v \<Rightarrow>
        (case nearest_body v None (w\<lparr>encoder_log := encoder_log w @ [strip t]\<rparr>) of
           (Inl e, w') \<Rightarrow> (Inr \<lparr>images = [], query = Some (strip t)\<rparr>, w')
         | (Inr names, w') \<Rightarrow> (Inr \<lparr>images = names, query = Some (strip t)\<rparr>, w')))"
  using assms
  by (simp add: index_unfold Let_def bind_io_def text_encoder_def to_list_def try_except_def
      return_io_def raise_io_def encoded_def split: sum.splits enc_value.splits prod.splits)

lemma neighbors_run:
  "neighbors x w =
    (case lookup_body x w of
       (Inl e, w1) \<Rightarrow> (Inr \<lparr>images = [], query = None\<rparr>, w1)
     | (Inr None, w1) \<Rightarrow> (Inr \<lparr>images = [], query = None\<rparr>, w1)
     | (Inr (Some v), w1) \<Rightarrow>
         if v = [] then (Inr \<lparr>images = [], query = None\<rparr>, w1)
         else (case nearest_body v (Some x) w1 of
                 (Inl e, w2) \<Rightarrow> (Inr \<lparr>images = [], query = None\<rparr>, w2)
               | (Inr names, w2) \<Rightarrow> (Inr \<lparr>images = names, query = None\<rparr>, w2)))"
  by (simp add: neighbors_unfold bind_io_def try_except_def return_io_def truthy_def
      split: sum.splits prod.splits option.splits)

lemma raised_since_refl: "\<not> raised_since w w"
  by (simp add: raised_since_def new_entries_def)

lemma raised_since_encoder_log:
  "raised_since (w\<lparr>encoder_log := l\<rparr>) w' = raised_since w w'"
  by (simp add: raised_since_def new_entries_def)


subsection \<open>Concrete runs\<close>

lemmas run_defs = search_def index_def neighbors_def strip_def is_space_def
  text_encoder_def to_list_def truthy_def io_defs select_nearest_def select_embedding_def eligible_def
  distance_def neg_inner_product_def nulls_last_def Let_def

lemma outage_text_run:
  "search (Text ''cat'') outage_world =
     (Inr \<lparr>images = [], query = Some ''cat''\<rparr>,
      outage_world\<lparr>open_conns := {0}, next_conn := 1,
        store_log := [(Connect, None), (Cursor, None),
                      (Execute (SelectNearest [1, 1] None), Some OperationalError)],
        encoder_log := [''cat'']\<rparr>)"
  by (simp add: outage_world_def demo_world_def run_defs)

lemma demo_text_run:
  "fst (search (Text ''cat'') demo_world) = Inr \<lparr>images = [''d'', ''a'', ''b'', ''c''], query = Some ''cat''\<rparr>"
  by (simp add: demo_world_def run_defs)

lemma demo_exemplar_run:
  "fst (search (Exemplar ''a'') demo_world) = Inr \<lparr>images = [''d'', ''b'', ''c''], query = None\<rparr>"
  by (simp add: demo_world_def run_defs)

subsection \<open>Blank text\<close>

lemma strip_blank: "\<forall>c\<in>set t. is_space c \<Longrightarrow> strip t = []"
proof -
  assume "\<forall>c\<in>set t. is_space c"
  then have d: "dropWhile is_space t = []" by simp
  show ?thesis unfolding strip_def d by simp
qed

text \<open>
  Claim C6. A text query that is empty or consists of white space only returns the empty
  result list, and the world is left as it was: no encoder call and no store call is
  made (none is logged, no connection is opened).
\<close>

theorem blank_text_short_circuits:
  assumes "\<forall>c\<in>set t. is_space c"
  shows "search (Text t) w = (Inr \<lparr>images = [], query = Some []\<rparr>, w)"
  using strip_blank[OF assms] by (simp add: search_def index_def return_io_def)

theorem blank_text_short_circuits_witness:
  "search (Text [CHR '' '', CHR 0x09, CHR '' '']) demo_world
     = (Inr \<lparr>images = [], query = Some []\<rparr>, demo_world)"
  using blank_text_short_circuits[of "[CHR '' '', CHR 0x09, CHR '' '']" demo_world]
  by (simp add: is_space_def)

subsection \<open>Store failures\<close>

text \<open>
  Claim C1. For every query, text or exemplar: if a call to the store raised during the
  request, the request still returns a response, and its result list is empty. In
  particular the result is never the exception of the store.
\<close>

theorem store_failure_gives_empty_result:
  assumes "search q w = (r, w')" and "raised_since w w'"
  shows "\<exists>echo. r = Inr \<lparr>images = [], query = echo\<rparr>"
proof (cases q)
  case (Text t)
  show ?thesis
  proof (cases "strip t = []")
    case True
    with Text assms show ?thesis
      by (auto simp add: search_def index_def return_io_def raised_since_refl)
  next
    case False
    let ?w1 = "w\<lparr>encoder_log := encoder_log w @ [strip t]\<rparr>"
    show ?thesis
    proof (cases "encoded w (strip t)")
      case (Inl e)
      with False Text assms(1) have "w' = ?w1" by (auto simp add: search_def index_text)
      with assms(2) show ?thesis by (simp add: raised_since_def new_entries_def)
    next
      case (Inr v)
      obtain r2 w2 where nb: "nearest_body v None ?w1 = (r2, w2)" by (cases "nearest_body v None ?w1")
      show ?thesis
      proof (cases r2)
        case (Inl e)
        with nb Inr False Text assms(1) show ?thesis by (auto simp add: search_def index_text)
      next
        case names: (Inr names)
        with nb have "\<not> raised_since ?w1 w2" by (simp add: nearest_body_Inr(2))
        moreover from names nb Inr False Text assms(1) have "w' = w2" by (auto simp add: search_def index_text)
        ultimately show ?thesis using assms(2) by (simp add: raised_since_encoder_log)
      qed
    qed
  qed
next
  case (Exemplar x)
  obtain r1 w1 where lb: "lookup_body x w = (r1, w1)" by (cases "lookup_body x w")
  show ?thesis
  proof (cases r1)
    case (Inl e)
    with lb Exemplar assms(1) show ?thesis by (auto simp add: search_def neighbors_run)
  next
    case cell: (Inr cell)
    note st = lookup_body_Inr(2)[OF lb[unfolded cell]]
    show ?thesis
    proof (cases "truthy cell")
      case False
      with cell lb Exemplar assms(1) show ?thesis
        by (auto simp add: search_def neighbors_run truthy_def split: option.splits)
    next
      case True
      then obtain v where v: "cell = Some v" "v \<noteq> []" by (auto simp add: truthy_def split: option.splits)
      obtain r2 w2 where nb: "nearest_body v (Some x) w1 = (r2, w2)" by (cases "nearest_body v (Some x) w1")
      show ?thesis
      proof (cases r2)
        case (Inl e)
        with nb v cell lb Exemplar assms(1) show ?thesis by (auto simp add: search_def neighbors_run)
      next
        case names: (Inr names)
        from names nb v cell lb Exemplar assms(1) have w': "w' = w2" by (auto simp add: search_def neighbors_run)
        have "store_log w2 = store_log w @ [(Connect, None), (Cursor, None), (Execute (SelectEmbedding x), None),
          (FetchOne, None), (CursorClose, None), (ConnClose, None)] @ [(Connect, None), (Cursor, None), (Execute (SelectNearest v (Some x)), None),
          (FetchAll, None), (CursorClose, None), (ConnClose, None)]"
          using nearest_body_Inr_state[OF nb[unfolded names]] st by simp
        then have "\<not> raised_since w w2" by (simp add: raised_since_def new_entries_def)
        with w' assms(2) show ?thesis by simp
      qed
    qed
  qed
qed

theorem store_failure_gives_empty_result_witness:
  "raised_since outage_world (snd (search (Text ''cat'') outage_world))
   \<and> fst (search (Text ''cat'') outage_world) = Inr \<lparr>images = [], query = Some ''cat''\<rparr>"
proof -
  have r: "raised_since outage_world (snd (search (Text ''cat'') outage_world))"
    by (simp add: outage_text_run) (simp add: raised_since_def new_entries_def outage_world_def demo_world_def)
  from store_failure_gives_empty_result[OF surjective_pairing r] r
  show ?thesis by (simp add: outage_text_run)
qed

subsection \<open>What the nearest-neighbour statement returns\<close>

lemma numbered_filter:
  "map snd (filter (\<lambda>(i, row). P row) (enumerate n xs)) = filter P xs"
  by (induction xs arbitrary: n) simp_all

lemma select_nearest_rows:
  assumes "select_nearest tbl tie v excl = Inr rows"
  shows "rows = map (\<lambda>(i, row). (fst row, distance v (snd row)))
           (take 30 (sort_key (\<lambda>(i, row). (nulls_last (distance v (snd row)), tie i))
              (filter (\<lambda>(i, row). case excl of None \<Rightarrow> True | Some x \<Rightarrow> fst row \<noteq> x)
                 (enumerate 0 tbl))))"
  using assms by (simp add: select_nearest_def Let_def split: if_splits)

lemma eligible_numbered:
  "eligible excl tbl
     = map snd (filter (\<lambda>(i, row). case excl of None \<Rightarrow> True | Some x \<Rightarrow> fst row \<noteq> x) (enumerate 0 tbl))"
  unfolding eligible_def by (rule numbered_filter[symmetric])

lemma select_nearest_names:
  assumes "select_nearest tbl tie v excl = Inr rows"
  shows "set (map fst rows) \<subseteq> fst ` set (eligible excl tbl)"
proof -
  let ?E = "filter (\<lambda>(i, row). case excl of None \<Rightarrow> True | Some x \<Rightarrow> fst row \<noteq> x) (enumerate 0 tbl)"
  let ?S = "sort_key (\<lambda>(i, row). (nulls_last (distance v (snd row)), tie i)) ?E"
  have rows: "rows = map (\<lambda>(i, row). (fst row, distance v (snd row))) (take 30 ?S)"
    using assms by (rule select_nearest_rows)
  have "set (take 30 ?S) \<subseteq> set ?E"
    using set_take_subset[of 30 ?S] by simp
  then have "snd ` set (take 30 ?S) \<subseteq> set (eligible excl tbl)"
    unfolding eligible_numbered by auto
  then show ?thesis unfolding rows by force
qed


subsection \<open>Encoder failures\<close>

text \<open>
  Claim C2, as amended. The call of the encoder and the conversion of its value stand
  before the \<^verbatim>\<open>try\<close> statement, so nothing catches what they raise. For every text
  query that is not blank: if the encoder raises, the request ends with that exception;
  if the encoder returns a value that is no vector, the request ends with the
  \<^verbatim>\<open>TypeError\<close> of \<^verbatim>\<open>list\<close>. In both cases no response is produced and the store
  is not contacted: the world differs from the initial one only by the logged encoder call.
\<close>

theorem encoder_failure_is_surfaced:
  assumes "strip t \<noteq> []"
  shows "(encoder w (strip t) = Inl e \<longrightarrow>
            search (Text t) w = (Inl e, w\<lparr>encoder_log := encoder_log w @ [strip t]\<rparr>))
       \<and> (encoder w (strip t) = Inr NoVector \<longrightarrow>
            search (Text t) w = (Inl TypeError, w\<lparr>encoder_log := encoder_log w @ [strip t]\<rparr>))"
  using assms by (simp add: search_def index_text encoded_def)

theorem encoder_failure_is_surfaced_witness:
  "search (Text ''cat'') mute_world = (Inl EncoderError, mute_world\<lparr>encoder_log := [''cat'']\<rparr>)"
  using encoder_failure_is_surfaced[of "''cat''" mute_world EncoderError]
  by (simp add: mute_world_def demo_world_def strip_def is_space_def)

text \<open>
  The claim as stated (an encoder failure yields the empty result list and never an
  exception) fails in the world whose encoder raises: the request ends with the
  encoder's exception.
\<close>

theorem encoder_failure_counterexample:
  "fst (search (Text ''cat'') mute_world) = Inl EncoderError"
  by (simp add: mute_world_def demo_world_def run_defs)

subsection \<open>Exclusion of the exemplar\<close>

text \<open>
  Claim C3. The result list of an exemplar query never contains the identifier the query
  was made with.
\<close>

theorem exemplar_is_excluded:
  assumes "search (Exemplar x) w = (Inr resp, w')"
  shows "x \<notin> set (images resp)"
proof -
  obtain r1 w1 where lb: "lookup_body x w = (r1, w1)" by (cases "lookup_body x w")
  show ?thesis
  proof (cases r1)
    case (Inl e)
    with lb assms show ?thesis by (auto simp add: search_def neighbors_run)
  next
    case cell: (Inr cell)
    show ?thesis
    proof (cases cell)
      case None
      with cell lb assms show ?thesis by (auto simp add: search_def neighbors_run)
    next
      case (Some v)
      obtain r2 w2 where nb: "nearest_body v (Some x) w1 = (r2, w2)" by (cases "nearest_body v (Some x) w1")
      show ?thesis
      proof (cases r2)
        case (Inl e)
        with nb Some cell lb assms show ?thesis
          by (auto simp add: search_def neighbors_run split: if_splits)
      next
        case names: (Inr names)
        from nearest_body_Inr(1)[OF nb[unfolded names]] obtain rows
          where rows: "names = map fst rows" "select_nearest (table w1) (tie_order w1 (SelectNearest v (Some x))) v (Some x) = Inr rows" by blast
        from select_nearest_names[OF rows(2)] rows(1)
        have "x \<notin> set names" by (auto simp add: eligible_def)
        with names nb Some cell lb assms show ?thesis
          by (auto simp add: search_def neighbors_run split: if_splits)
      qed
    qed
  qed
qed

theorem exemplar_is_excluded_witness:
  "''a'' \<notin> set (images \<lparr>images = [''d'', ''b'', ''c''], query = None\<rparr>)
   \<and> fst (search (Exemplar ''a'') demo_world) = Inr \<lparr>images = [''d'', ''b'', ''c''], query = None\<rparr>"
proof -
  have "search (Exemplar ''a'') demo_world
      = (Inr \<lparr>images = [''d'', ''b'', ''c''], query = None\<rparr>, snd (search (Exemplar ''a'') demo_world))"
    using demo_exemplar_run by (simp add: prod_eq_iff)
  from exemplar_is_excluded[OF this] show ?thesis by (simp add: demo_exemplar_run)
qed

subsection \<open>Connections\<close>

text \<open>
  Claim C9 asks that a request releases its connection on every exit path. The handlers
  call \<^verbatim>\<open>conn.close()\<close> as the last statement of the \<^verbatim>\<open>try\<close> body only; the
  \<^verbatim>\<open>except\<close> branch does not close. When \<^verbatim>\<open>execute\<close> fails, the connection the
  request opened is still open when the request returns.
\<close>

theorem failed_query_leaves_connection_open:
  "open_conns outage_world = {} \<and> open_conns (snd (search (Text ''cat'') outage_world)) = {0}"
  by (simp add: outage_text_run) (simp add: outage_world_def demo_world_def)

subsection \<open>Exemplars without a usable embedding\<close>

lemma select_embedding_absent:
  "x \<notin> fst ` set tbl \<Longrightarrow> select_embedding tbl x = []"
proof -
  assume "x \<notin> fst ` set tbl"
  then have "filter (\<lambda>row. fst row = x) tbl = []" by (auto simp add: filter_empty_conv)
  then show ?thesis by (simp add: select_embedding_def)
qed

lemma neighbors_falsy:
  assumes "lookup_body x w = (Inr cell, w1)" "\<not> truthy cell"
  shows "neighbors x w = (Inr \<lparr>images = [], query = None\<rparr>, w1)"
  using assms by (auto simp add: neighbors_run truthy_def split: option.splits)

lemma neighbors_lookup_raised:
  assumes "lookup_body x w = (Inl e, w1)"
  shows "neighbors x w = (Inr \<lparr>images = [], query = None\<rparr>, w1)"
  using assms by (simp add: neighbors_run)

text \<open>
  Claim C7. An exemplar query whose identifier has no row in the table, or whose lookup
  raises (at any of its store calls), returns the empty result list.
\<close>

theorem missing_exemplar_gives_empty_result:
  assumes "x \<notin> fst ` set (table w) \<or> (\<exists>e w1. lookup_body x w = (Inl e, w1))"
  shows "fst (search (Exemplar x) w) = Inr \<lparr>images = [], query = None\<rparr>"
proof -
  obtain r1 w1 where lb: "lookup_body x w = (r1, w1)" by (cases "lookup_body x w")
  show ?thesis
  proof (cases r1)
    case (Inl e)
    with lb show ?thesis by (simp add: search_def neighbors_lookup_raised)
  next
    case (Inr cell)
    with lb assms have "x \<notin> fst ` set (table w)" by auto
    then have "select_embedding (table w) x = []" by (rule select_embedding_absent)
    with lookup_body_Inr(1)[OF lb[unfolded Inr]] have "cell = None" by simp
    then have "\<not> truthy cell" by (simp add: truthy_def)
    with lb Inr show ?thesis by (simp add: search_def neighbors_falsy)
  qed
qed

theorem missing_exemplar_gives_empty_result_witness:
  "fst (search (Exemplar ''zebra'') demo_world) = Inr \<lparr>images = [], query = None\<rparr>
   \<and> fst (search (Exemplar ''a'') outage_world) = Inr \<lparr>images = [], query = None\<rparr>"
proof -
  have "\<exists>e w1. lookup_body ''a'' outage_world = (Inl e, w1)"
    by (simp add: outage_world_def demo_world_def lookup_body_def io_defs)
  with missing_exemplar_gives_empty_result[of "''zebra''" demo_world]
    missing_exemplar_gives_empty_result[of "''a''" outage_world]
  show ?thesis by (simp add: demo_world_def)
qed

text \<open>
  Claim C10. An exemplar query whose row is found but holds an embedding that Python
  takes for false (\<^verbatim>\<open>None\<close> or empty) returns the empty result list; the request
  ends in the state the lookup left, so nothing follows the lookup, and no
  nearest-neighbour statement is among the store calls of the request.
\<close>

theorem falsy_embedding_is_a_miss:
  assumes "select_embedding (table w) x = [cell]" and "\<not> truthy cell"
  shows "search (Exemplar x) w = (Inr \<lparr>images = [], query = None\<rparr>, snd (lookup_body x w))
       \<and> list_all (\<lambda>entry. case fst entry of Execute (SelectNearest v excl) \<Rightarrow> False | _ \<Rightarrow> True)
            (new_entries w (snd (search (Exemplar x) w)))"
proof -
  obtain r1 w1 where lb: "lookup_body x w = (r1, w1)" by (cases "lookup_body x w")
  have run: "search (Exemplar x) w = (Inr \<lparr>images = [], query = None\<rparr>, w1)"
  proof (cases r1)
    case (Inl e)
    with lb show ?thesis by (simp add: search_def neighbors_lookup_raised)
  next
    case (Inr c)
    with lookup_body_Inr(1)[OF lb[unfolded Inr]] assms have "\<not> truthy c" by simp
    with lb Inr show ?thesis by (simp add: search_def neighbors_falsy)
  qed
  have "\<forall>entry \<in> set (new_entries w w1). \<forall>v excl. fst entry \<noteq> Execute (SelectNearest v excl)"
    using lb by (rule lookup_body_log)
  then have "list_all (\<lambda>entry. case fst entry of Execute (SelectNearest v excl) \<Rightarrow> False | _ \<Rightarrow> True)
            (new_entries w w1)"
    by (auto simp add: list_all_iff split: store_op.splits sql_stmt.splits)
  with run lb show ?thesis by simp
qed

theorem falsy_embedding_is_a_miss_witness:
  "search (Exemplar ''c'') demo_world = (Inr \<lparr>images = [], query = None\<rparr>,
      demo_world\<lparr>next_conn := 1,
        store_log := [(Connect, None), (Cursor, None), (Execute (SelectEmbedding ''c''), None),
                      (FetchOne, None), (CursorClose, None), (ConnClose, None)]\<rparr>)"
proof -
  have lb: "lookup_body ''c'' demo_world = (Inr None,
      demo_world\<lparr>next_conn := 1,
        store_log := [(Connect, None), (Cursor, None), (Execute (SelectEmbedding ''c''), None),
                      (FetchOne, None), (CursorClose, None), (ConnClose, None)]\<rparr>)"
    by (simp add: demo_world_def lookup_body_def io_defs select_embedding_def)
  have "select_embedding (table demo_world) ''c'' = [None]" "\<not> truthy None"
    by (simp_all add: demo_world_def select_embedding_def truthy_def)
  from falsy_embedding_is_a_miss[OF this] show ?thesis by (simp add: lb)
qed

subsection \<open>The outcomes of a request\<close>



subsection \<open>The cap\<close>




subsection \<open>Determinism of the text search\<close>

lemma nearest_body_Inr_iff:
  "fst (nearest_body v excl w) = Inr names \<longleftrightarrow>
     (\<forall>i<6. \<not> fault_at w i) \<and> (\<exists>rows. select_nearest (table w) (tie_order w (SelectNearest v excl)) v excl = Inr rows \<and> names = map fst rows)"
proof
  assume a: "fst (nearest_body v excl w) = Inr names"
  then have run: "nearest_body v excl w = (Inr names, snd (nearest_body v excl w))"
    by (simp add: prod_eq_iff)
  from nearest_body_no_fault[OF run] nearest_body_Inr(1)[OF run]
  show "(\<forall>i<6. \<not> fault_at w i) \<and> (\<exists>rows. select_nearest (table w) (tie_order w (SelectNearest v excl)) v excl = Inr rows \<and> names = map fst rows)"
    by blast
next
  assume "(\<forall>i<6. \<not> fault_at w i) \<and> (\<exists>rows. select_nearest (table w) (tie_order w (SelectNearest v excl)) v excl = Inr rows \<and> names = map fst rows)"
  then obtain rows where "\<forall>i<6. \<not> fault_at w i" "select_nearest (table w) (tie_order w (SelectNearest v excl)) v excl = Inr rows" "names = map fst rows"
    by blast
  then show "fst (nearest_body v excl w) = Inr names" by (simp add: nearest_body_ok)
qed

lemma index_text_fst:
  assumes "strip t \<noteq> []"
  shows "fst (index (Some t) w) =
    (case encoded w (strip t) of
       Inl e \<Rightarrow> Inl e
     | Inr v \<Rightarrow> Inr \<lparr>images = (case fst (nearest_body v None (w\<lparr>encoder_log := encoder_log w @ [strip t]\<rparr>)) of
                                  Inl e \<Rightarrow> [] | Inr names \<Rightarrow> names),
                      query = Some (strip t)\<rparr>)"
  using assms by (simp add: index_text split: sum.splits prod.splits)

lemma nearest_images_agree:
  assumes "table w1 = table w2" and "tie_order w1 = tie_order w2"
    and "\<forall>i. fault_at w1 i = fault_at w2 i"
  shows "(case fst (nearest_body v excl w1) of Inl e \<Rightarrow> [] | Inr names \<Rightarrow> names)
       = (case fst (nearest_body v excl w2) of Inl e \<Rightarrow> [] | Inr names \<Rightarrow> names)"
proof -
  have iff: "fst (nearest_body v excl w1) = Inr names \<longleftrightarrow> fst (nearest_body v excl w2) = Inr names" for names
    using assms by (simp add: nearest_body_Inr_iff)
  show ?thesis
  proof (cases "fst (nearest_body v excl w1)")
    case (Inr names)
    with iff[of names] show ?thesis by simp
  next
    case l1: (Inl e)
    show ?thesis
    proof (cases "fst (nearest_body v excl w2)")
      case (Inr names)
      with iff[of names] l1 show ?thesis by simp
    next
      case (Inl e')
      with l1 show ?thesis by simp
    qed
  qed
qed

text \<open>
  Claim C8. The response to a text query is a function of the query, the encoder and the
  store (its table, the order in which it returns tied rows, its availability): two
  worlds that agree on the table, on the encoder, on the order of tied rows and on which
  of the coming store calls fail give the same response to the same text, whatever was
  logged, opened or closed before. In particular a second invocation,
  in the state the first one left, returns what the first one returned.
\<close>

theorem text_search_is_deterministic:
  assumes "table w1 = table w2" and "encoder w1 = encoder w2"
    and "tie_order w1 = tie_order w2"
    and "\<forall>i. fault_at w1 i = fault_at w2 i"
  shows "fst (search (Text t) w1) = fst (search (Text t) w2)"
proof (cases "strip t = []")
  case True
  then show ?thesis by (simp add: search_def index_def return_io_def)
next
  case False
  let ?u1 = "w1\<lparr>encoder_log := encoder_log w1 @ [strip t]\<rparr>"
  let ?u2 = "w2\<lparr>encoder_log := encoder_log w2 @ [strip t]\<rparr>"
  have enc: "encoded w1 (strip t) = encoded w2 (strip t)"
    using assms(2) by (simp add: encoded_def)
  have "table ?u1 = table ?u2" using assms(1) by simp
  moreover have "tie_order ?u1 = tie_order ?u2" using assms(3) by simp
  moreover have "\<forall>i. fault_at ?u1 i = fault_at ?u2 i"
    using assms(4) by (simp add: fault_at_def)
  ultimately have "(case fst (nearest_body v None ?u1) of Inl e \<Rightarrow> [] | Inr names \<Rightarrow> names)
       = (case fst (nearest_body v None ?u2) of Inl e \<Rightarrow> [] | Inr names \<Rightarrow> names)" for v
    by (rule nearest_images_agree)
  with enc False show ?thesis
    by (simp add: search_def index_text_fst split: sum.splits)
qed

lemma demo_text_full_run:
  "search (Text ''cat'') demo_world =
     (Inr \<lparr>images = [''d'', ''a'', ''b'', ''c''], query = Some ''cat''\<rparr>,
      demo_world\<lparr>next_conn := 1,
        store_log := [(Connect, None), (Cursor, None), (Execute (SelectNearest [1, 1] None), None),
                      (FetchAll, None), (CursorClose, None), (ConnClose, None)],
        encoder_log := [''cat'']\<rparr>)"
  by (simp add: demo_world_def run_defs)

theorem text_search_is_deterministic_witness:
  "fst (search (Text ''cat'') (snd (search (Text ''cat'') demo_world)))
     = fst (search (Text ''cat'') demo_world)
   \<and> fst (search (Text ''cat'') demo_world)
     = Inr \<lparr>images = [''d'', ''a'', ''b'', ''c''], query = Some ''cat''\<rparr>"
proof -
  let ?w' = "snd (search (Text ''cat'') demo_world)"
  have "table ?w' = table demo_world" "encoder ?w' = encoder demo_world"
    "tie_order ?w' = tie_order demo_world"
    "\<forall>i. fault_at ?w' i = fault_at demo_world i"
    by (simp_all add: demo_text_full_run fault_at_def) (simp add: demo_world_def)
  from text_search_is_deterministic[OF this, of "''cat''"] show ?thesis
    by (simp add: demo_text_full_run)
qed

subsection \<open>The order of the result\<close>










end
